theory Spec2Isabelle
  imports Complex_Main "HOL-Library.Word"
begin

section \<open>linux\_sockets/cluster.h: the cluster enumeration\<close>

text \<open>
  A C enumeration gives every enumerator with an initialiser that value and every
  enumerator without one the value of its predecessor plus one (zero for the first).
  The declaration is kept as the list of its enumerators, in order, and
  \<open>enum_values\<close> assigns the values the compiler does.
\<close>

fun enum_values :: "int \<Rightarrow> (string \<times> int option) list \<Rightarrow> (string \<times> int) list" where
  "enum_values nxt [] = []"
| "enum_values nxt ((name, Some v) # es) = (name, v) # enum_values (v + 1) es"
| "enum_values nxt ((name, None) # es) = (name, nxt) # enum_values (nxt + 1) es"

definition cluster_enum :: "(string \<times> int) list" where
  "cluster_enum =
     enum_values 0
       [(''CLUSTER_GLOBAL'', Some 0),
        (''CLUSTER_SS'', Some 1),
        (''NUM_CLUSTERS'', None)]"

definition enumerator :: "string \<Rightarrow> int" where
  "enumerator name = (case map_of cluster_enum name of Some v \<Rightarrow> v | None \<Rightarrow> - 1)"

definition CLUSTER_GLOBAL :: int where
  "CLUSTER_GLOBAL = enumerator ''CLUSTER_GLOBAL''"

definition CLUSTER_SS :: int where
  "CLUSTER_SS = enumerator ''CLUSTER_SS''"

definition NUM_CLUSTERS :: int where
  "NUM_CLUSTERS = enumerator ''NUM_CLUSTERS''"


section \<open>linux/proc\_uptime.c: reading the uptime file\<close>

subsection \<open>The output structure and the machine around the function\<close>

text \<open>
  Modelled from the spec: the structure \<open>proc_uptime_t\<close> is declared in
  proc\_uptime.h, which is not among the sources. The interface returns the two
  numbers \<open>uptimeSeconds\<close> and \<open>idleSeconds\<close>; the function stores them into
  the \<open>double\<close> fields it calls \<open>uptime\<close> and \<open>idletime\<close>. A \<open>double\<close> is kept
  as the 64 bits it occupies (IEEE 754 binary64), so every value the C library
  can store, rounded, infinite or not a number, is a value of the model, and
  the bytes \<open>memset\<close> clears are the bit pattern 0, the double 0.0.
\<close>

type_synonym double = "64 word"

record proc_uptime_t =
  uptime :: double
  idletime :: double

text \<open>\<open>MAXPATHLEN\<close> comes from the system headers; on Linux it is 4096.\<close>

definition MAXPATHLEN :: nat where
  "MAXPATHLEN = 4096"

definition NUL :: char where
  "NUL = CHR 0x00"

text \<open>
  What the operating system does with a path: \<open>open\<close> fails with an error number,
  or \<open>open\<close> succeeds and \<open>read\<close> fails with an error number, or \<open>read\<close> delivers
  bytes. \<open>stack\<close> is the indeterminate content of the memory that the local array
  \<open>buf\<close> comes to occupy, \<open>linux_statspath\<close> the global path prefix.

  \<open>conv_lf\<close> is the conversion \<open>%lf\<close> of the C library, which is no part of the
  repository: for an input whose leading white space has been skipped, the
  double it stores and the input it leaves unread, or \<open>None\<close> when the front of
  the input is not a number (a matching failure, or the end of the input).
  The model takes the conversion as the machine has it, whatever forms of
  number it reads and however it rounds, as it takes the results of \<open>open\<close>
  and \<open>read\<close>.
\<close>

datatype os_file = OpenFails int | ReadFails int | ReadGives string

datatype syscall = SysOpen string | SysRead nat | SysClose

record os =
  linux_statspath :: string
  file_at :: "string \<Rightarrow> os_file"
  stack :: "nat \<Rightarrow> char"
  conv_lf :: "string \<Rightarrow> (double \<times> string) option"

text \<open>
  \<open>open(path, O_RDONLY)\<close>: the error number on the left, the descriptor on the right
  (a descriptor is represented by the path it was opened on).
\<close>

definition sys_open :: "os \<Rightarrow> string \<Rightarrow> int + string" where
  "sys_open w path =
     (case file_at w path of
        OpenFails errno \<Rightarrow> Inl errno
      | ReadFails _ \<Rightarrow> Inr path
      | ReadGives _ \<Rightarrow> Inr path)"

text \<open>\<open>read(fd, buf, count)\<close> delivers at most \<open>count\<close> bytes.\<close>

definition sys_read :: "os \<Rightarrow> string \<Rightarrow> nat \<Rightarrow> int + string" where
  "sys_read w fd count =
     (case file_at w fd of
        OpenFails errno \<Rightarrow> Inl errno
      | ReadFails errno \<Rightarrow> Inl errno
      | ReadGives bytes \<Rightarrow> Inr (take count bytes))"

subsection \<open>The character buffer\<close>

text \<open>The string a C function sees in a buffer ends before the first NUL.\<close>

definition c_string :: "char list \<Rightarrow> string" where
  "c_string buf = takeWhile (\<lambda>c. c \<noteq> NUL) buf"

text \<open>
  \<open>pmsprintf\<close> is the bounded \<open>sprintf\<close> of libpcp, defined outside the file
  that is verified here; it is taken to behave as \<open>snprintf\<close> does and to always
  terminate the string: at most \<open>sz - 1\<close> characters and a NUL are written, nothing when
  the size \<open>sz\<close> is zero.
\<close>

definition pmsprintf :: "char list \<Rightarrow> nat \<Rightarrow> string \<Rightarrow> char list" where
  "pmsprintf buf sz s =
     (if sz = 0 then buf
      else let t = take (sz - 1) s in t @ [NUL] @ drop (length t + 1) buf)"

text \<open>
  A store \<open>buf[i] = c\<close>. Outside the array the behaviour of the C program is
  undefined, which the model reports as \<open>None\<close>.
\<close>

definition store :: "char list \<Rightarrow> int \<Rightarrow> char \<Rightarrow> char list option" where
  "store buf i c =
     (if 0 \<le> i \<and> nat i < length buf then Some (buf[nat i := c]) else None)"

subsection \<open>The call of \<open>sscanf\<close>\<close>

definition isspace :: "char \<Rightarrow> bool" where
  "isspace c =
     (c = CHR '' '' \<or> c = CHR 0x09 \<or> c = CHR 0x0A \<or> c = CHR 0x0B \<or> c = CHR 0x0C \<or> c = CHR 0x0D)"

text \<open>
  \<open>sscanf(buf, "%lf %lf", &p->uptime, &p->idletime)\<close> with the conversion
  \<open>conv\<close> for \<open>%lf\<close>: each \<open>%lf\<close> skips white space first, and so does the blank
  between them; a conversion that fails ends the call and leaves the
  remaining fields as they were. The result is the number of fields assigned
  and the structure (\<open>sscanf\<close> can also return \<open>EOF\<close> where the model says zero;
  the function discards the number).
\<close>

definition sscanf_lf_lf ::
  "(string \<Rightarrow> (double \<times> string) option) \<Rightarrow> string \<Rightarrow> proc_uptime_t \<Rightarrow> nat \<times> proc_uptime_t" where
  "sscanf_lf_lf conv s p =
     (case conv (dropWhile isspace s) of
        None \<Rightarrow> (0, p)
      | Some (a, r) \<Rightarrow>
          (case conv (dropWhile isspace (dropWhile isspace r)) of
             None \<Rightarrow> (1, p\<lparr>uptime := a\<rparr>)
           | Some (b, _) \<Rightarrow> (2, p\<lparr>uptime := a, idletime := b\<rparr>)))"

subsection \<open>refresh\_proc\_uptime\<close>

text \<open>\<open>memset(proc_uptime, 0, sizeof(proc_uptime_t))\<close>: every field becomes zero.\<close>

definition memset_zero :: "proc_uptime_t \<Rightarrow> proc_uptime_t" where
  "memset_zero p = p\<lparr>uptime := 0, idletime := 0\<rparr>"

text \<open>The local array \<open>buf\<close> on entry, and after the path has been printed into it.\<close>

definition buf_on_entry :: "os \<Rightarrow> char list" where
  "buf_on_entry w = map (stack w) [0..<MAXPATHLEN]"

definition path_buf :: "os \<Rightarrow> char list" where
  "path_buf w =
     pmsprintf (buf_on_entry w) (length (buf_on_entry w)) (linux_statspath w @ ''/proc/uptime'')"

text \<open>The adjustment of the byte count: \<open>else if (n > 0) n--;\<close>\<close>

definition adjust :: "int \<Rightarrow> int" where
  "adjust n = (if n > 0 then n - 1 else n)"

text \<open>
  The function takes the machine and the caller's structure as it was, and
  returns the \<open>int\<close> result, the caller's structure as it has become, and the
  system calls made, in order. \<open>None\<close> is a store outside \<open>buf\<close>.
\<close>

definition refresh_proc_uptime ::
  "os \<Rightarrow> proc_uptime_t \<Rightarrow> (int \<times> proc_uptime_t \<times> syscall list) option" where
  "refresh_proc_uptime w proc_uptime0 =
     (let proc_uptime = memset_zero proc_uptime0;
          buf = path_buf w;
          path = c_string buf
      in case sys_open w path of
           Inl errno \<Rightarrow> Some (- errno, proc_uptime, [SysOpen path])
         | Inr fd \<Rightarrow>
             (case sys_read w fd (length buf) of
                Inl errno \<Rightarrow>
                  Some (- errno, proc_uptime, [SysOpen path, SysRead (length buf), SysClose])
              | Inr bytes \<Rightarrow>
                  (let n = int (length bytes);
                       buf1 = bytes @ drop (length bytes) buf;
                       n1 = adjust n
                   in case store buf1 n1 NUL of
                        None \<Rightarrow> None
                      | Some buf2 \<Rightarrow>
                          Some (0, snd (sscanf_lf_lf (conv_lf w) (c_string buf2) proc_uptime),
                                [SysOpen path, SysRead (length buf), SysClose]))))"

text \<open>The path the function opens: the string it has printed into \<open>buf\<close>.\<close>

definition uptime_path :: "os \<Rightarrow> string" where
  "uptime_path w = c_string (path_buf w)"

subsection \<open>The text of the uptime file, and machines to run the function on\<close>

text \<open>Two numbers as text, a blank between them and a newline at the end.\<close>

definition uptime_text :: "string \<Rightarrow> string \<Rightarrow> string" where
  "uptime_text a b = a @ '' '' @ b @ [CHR 0x0A]"

text \<open>
  A machine whose uptime file holds \<open>content\<close> and whose C library converts
  the texts listed in \<open>table\<close> as the table says and nothing else. A table
  lists, for the inputs that occur in one run, what the library makes of
  them.
\<close>

definition machine :: "string \<Rightarrow> (string \<times> double \<times> string) list \<Rightarrow> os" where
  "machine content table =
     \<lparr>linux_statspath = '''',
      file_at = (\<lambda>p. if p = ''/proc/uptime'' then ReadGives content else OpenFails 2),
      stack = (\<lambda>i. CHR ''?''),
      conv_lf = map_of table\<rparr>"

text \<open>
  What the C library makes of the texts of a file with two zeroes: \<open>0.00\<close> is
  the double 0.0, read up to the blank. A text that is not listed, such as
  \<open>garbage\<close>, is no number.
\<close>

definition zeroes_table :: "(string \<times> double \<times> string) list" where
  "zeroes_table = [(''0.00 0.00'', (0, '' 0.00'')), (''0.00'', (0, []))]"

text \<open>
  The file of a machine that has been up for a while: the doubles nearest to
  350735.47 and to 234388.90 have the bits \<open>0x4115683DE147AE14\<close> and
  \<open>0x410C9CA733333333\<close>.
\<close>

definition uptime_table :: "(string \<times> double \<times> string) list" where
  "uptime_table =
     [(''350735.47 234388.90'', (0x4115683DE147AE14, '' 234388.90'')),
      (''234388.90'', (0x410C9CA733333333, []))]"

text \<open>
  A file longer than the buffer: the number 1 written with 4094 zeroes after
  the point, which fills 4096 bytes, then a blank, the number 25 and a
  newline. The double 1.0 has the bits \<open>0x3FF0000000000000\<close>, the double 25.0
  the bits \<open>0x4039000000000000\<close>.
\<close>

definition long_content :: string where
  "long_content = uptime_text (''1.'' @ replicate 4094 (CHR ''0'')) ''25''"

definition long_table :: "(string \<times> double \<times> string) list" where
  "long_table =
     [(''1.'' @ replicate 4093 (CHR ''0''), (0x3FF0000000000000, [])),
      (''25'', (0x4039000000000000, []))]"


section \<open>statsd/src/parser-basic.h: the basic parser\<close>

text \<open>
  The header declares the entry point
  \<^verbatim>\<open>int basic_parser_parse(char *buffer, struct statsd_datagram** datagram)\<close>
  and documents it: the buffer is parsed, the datagram is populated with the
  parsed data if they are valid, and the result is 1 on success and 0 on
  failure. The body of the function, the structure \<open>statsd_datagram\<close> and the
  code that cuts a received packet into statements are not among the sources.
  What the declaration does not say is modelled from the specification of the
  datagram parser.
\<close>

subsection \<open>Datagrams and failure kinds\<close>

text \<open>
  Modelled from the spec: the taxonomy of parse failures. No source file
  declares such a type.
\<close>

datatype ParseError = TooLarge | UnknownType | InvalidSampleRate | MalformedValue | MalformedName

text \<open>
  Modelled from the spec: the four kinds of metric, and the value of a
  datagram, a number or, for a set, an opaque member identifier.
\<close>

datatype metric_type = Counter | Gauge | Timer | Set

datatype metric_value = Number rat | Member string

text \<open>
  Modelled from the spec: the datagram of the data model (name, type, value,
  sample rate, tags in order); \<open>struct statsd_datagram\<close> itself is declared in a
  header that is not among the sources.
\<close>

record statsd_datagram =
  name :: string
  type :: metric_type
  "value" :: metric_value
  sampleRate :: rat
  tags :: "(string \<times> string) list"

subsection \<open>Cutting text at delimiters\<close>

definition newline :: char where
  "newline = CHR 0x0A"

text \<open>The pieces of a text between the occurrences of a delimiter.\<close>

fun split_on :: "char \<Rightarrow> string \<Rightarrow> string list" where
  "split_on d [] = [[]]"
| "split_on d (c # cs) =
     (if c = d then [] # split_on d cs
      else (case split_on d cs of [] \<Rightarrow> [[c]] | x # xs \<Rightarrow> (c # x) # xs))"

text \<open>The text before and after the first occurrence of a delimiter.\<close>

fun break_at :: "char \<Rightarrow> string \<Rightarrow> (string \<times> string) option" where
  "break_at d [] = None"
| "break_at d (c # cs) =
     (if c = d then Some ([], cs)
      else (case break_at d cs of None \<Rightarrow> None | Some (a, b) \<Rightarrow> Some (c # a, b)))"

subsection \<open>One statement\<close>

text \<open>
  Modelled from the spec: the delimiters of the line protocol
  \<open>name:value|type[|@sampleRate][|#tag1:val1,tag2:val2,...]\<close>, which a name must
  not contain, and the newline that separates statements.
\<close>

definition reserved :: "char \<Rightarrow> bool" where
  "reserved c =
     (c = CHR '':'' \<or> c = CHR ''|'' \<or> c = CHR ''@'' \<or> c = CHR ''#'' \<or> c = CHR '','' \<or>
      c = newline)"

text \<open>
  Modelled from the spec: the type token maps to exactly one of \<open>c\<close>, \<open>g\<close>,
  \<open>ms\<close> or \<open>h\<close>, and \<open>s\<close>.
\<close>

definition parse_type :: "string \<Rightarrow> metric_type option" where
  "parse_type t =
     (if t = ''c'' then Some Counter
      else if t = ''g'' then Some Gauge
      else if t = ''ms'' \<or> t = ''h'' then Some Timer
      else if t = ''s'' then Some Set
      else None)"

text \<open>
  Modelled from the spec: a value must parse as a finite number. The model
  reads decimal numerals: an optional sign, digits, and an optional point
  followed by digits, with at least one digit in all. \<open>scan_digits\<close> gives the
  number read so far, how many digits were read, and the input that is left.
\<close>

definition isdigit :: "char \<Rightarrow> bool" where
  "isdigit c = (48 \<le> (of_char c :: nat) \<and> (of_char c :: nat) \<le> 57)"

definition digit_val :: "char \<Rightarrow> nat" where
  "digit_val c = of_char c - 48"

fun scan_digits :: "string \<Rightarrow> nat \<Rightarrow> nat \<Rightarrow> nat \<times> nat \<times> string" where
  "scan_digits [] acc k = (acc, k, [])"
| "scan_digits (c # cs) acc k =
     (if isdigit c then scan_digits cs (acc * 10 + digit_val c) (Suc k)
      else (acc, k, c # cs))"

definition scan_sign :: "string \<Rightarrow> bool \<times> string" where
  "scan_sign s =
     (case s of
        [] \<Rightarrow> (False, [])
      | c # cs \<Rightarrow>
          if c = CHR ''-'' then (True, cs)
          else if c = CHR ''+'' then (False, cs)
          else (False, s))"

definition scan_number :: "string \<Rightarrow> (rat \<times> string) option" where
  "scan_number s =
     (let (neg, s1) = scan_sign s;
          (ip, ni, s2) = scan_digits s1 0 0;
          (m, nf, s3) =
            (case s2 of
               [] \<Rightarrow> (ip, 0, s2)
             | c # cs \<Rightarrow> if c = CHR ''.'' then scan_digits cs ip 0 else (ip, 0, s2))
      in if ni + nf = 0 then None
         else Some ((if neg then - 1 else 1) * (of_nat m / 10 ^ nf), s3))"

text \<open>
  Modelled from the spec: the numeral takes the whole field; the value of a
  set is an opaque member identifier.
\<close>

definition parse_number :: "string \<Rightarrow> rat option" where
  "parse_number s =
     (case scan_number s of None \<Rightarrow> None | Some (x, r) \<Rightarrow> if r = [] then Some x else None)"

definition parse_value :: "metric_type \<Rightarrow> string \<Rightarrow> metric_value option" where
  "parse_value ty v =
     (if ty = Set then Some (Member v)
      else (case parse_number v of None \<Rightarrow> None | Some x \<Rightarrow> Some (Number x)))"

text \<open>
  Modelled from the spec: a sample rate, if present, is written \<open>@rate\<close> and
  must lie in the interval from 0 (excluded) to 1 (included).
\<close>

definition parse_rate :: "string \<Rightarrow> rat option" where
  "parse_rate f =
     (case f of
        [] \<Rightarrow> None
      | c # r \<Rightarrow>
          if c = CHR ''@'' then
            (case parse_number r of
               None \<Rightarrow> None
             | Some x \<Rightarrow> if 0 < x \<and> x \<le> 1 then Some x else None)
          else None)"

text \<open>
  Modelled from the spec: the tag field \<open>#tag1:val1,tag2:val2,...\<close>, an ordered
  sequence of pairs of strings. The spec names no failure kind for tags, so
  the model reads them leniently: a tag without a colon has the empty value.
\<close>

definition is_tags :: "string \<Rightarrow> bool" where
  "is_tags f = (case f of [] \<Rightarrow> False | c # r \<Rightarrow> c = CHR ''#'')"

definition parse_tag :: "string \<Rightarrow> string \<times> string" where
  "parse_tag item = (case break_at (CHR '':'') item of None \<Rightarrow> (item, []) | Some kv \<Rightarrow> kv)"

definition parse_tags :: "string \<Rightarrow> (string \<times> string) list" where
  "parse_tags f = map parse_tag (filter (\<lambda>item. item \<noteq> []) (split_on (CHR '','') (tl f)))"

text \<open>
  Modelled from the spec: what may follow the type, \<open>[|@sampleRate][|#tags]\<close>.
  The sample rate defaults to 1. The only failure kind the spec has for this
  part of a statement is \<open>InvalidSampleRate\<close>; the model reports it for every
  tail that is not of this form.
\<close>

fun parse_tail :: "string list \<Rightarrow> ParseError + rat \<times> (string \<times> string) list" where
  "parse_tail [] = Inr (1, [])"
| "parse_tail [f] =
     (if is_tags f then Inr (1, parse_tags f)
      else (case parse_rate f of None \<Rightarrow> Inl InvalidSampleRate | Some r \<Rightarrow> Inr (r, [])))"
| "parse_tail [f, g] =
     (case parse_rate f of
        None \<Rightarrow> Inl InvalidSampleRate
      | Some r \<Rightarrow> if is_tags g then Inr (r, parse_tags g) else Inl InvalidSampleRate)"
| "parse_tail (f # g # h # hs) = Inl InvalidSampleRate"

text \<open>
  Modelled from the spec: the body of the parser for one statement, which is
  not among the sources. The statement is read from left to right: the name
  up to the first colon (non-empty, free of delimiters), then the fields
  between the bars: the value, the type token, and the optional tail. The type
  is looked at before the value, because what a value may be depends on it.
  A statement without a colon has no name, one without a type field has no
  known type.
\<close>

definition parse_statement :: "string \<Rightarrow> ParseError + statsd_datagram" where
  "parse_statement s =
     (case break_at (CHR '':'') s of
        None \<Rightarrow> Inl MalformedName
      | Some (nm, rest) \<Rightarrow>
          if nm = [] \<or> list_ex reserved nm then Inl MalformedName
          else
            (case split_on (CHR ''|'') rest of
               v # t # tail \<Rightarrow>
                 (case parse_type t of
                    None \<Rightarrow> Inl UnknownType
                  | Some ty \<Rightarrow>
                      (case parse_value ty v of
                         None \<Rightarrow> Inl MalformedValue
                       | Some x \<Rightarrow>
                           (case parse_tail tail of
                              Inl e \<Rightarrow> Inl e
                            | Inr (r, tg) \<Rightarrow>
                                Inr \<lparr>name = nm, type = ty, value = x, sampleRate = r, tags = tg\<rparr>)))
             | _ \<Rightarrow> Inl UnknownType))"

subsection \<open>The entry point\<close>

text \<open>
  The declared interface: the result is the \<open>int\<close> and the caller's placeholder
  for the datagram. As the header documents, the placeholder is populated
  when the data are valid and the \<open>int\<close> is 1 on success and 0 on failure.
  Which statements are valid is decided by \<open>parse_statement\<close>.
\<close>

definition basic_parser_parse ::
  "string \<Rightarrow> statsd_datagram option \<Rightarrow> int \<times> statsd_datagram option" where
  "basic_parser_parse buffer datagram =
     (case parse_statement buffer of
        Inl e \<Rightarrow> (0, datagram)
      | Inr d \<Rightarrow> (1, Some d))"

subsection \<open>A buffer of statements\<close>

text \<open>
  Modelled from the spec: the code that cuts a received buffer into statements
  is not among the sources. Several statements may be packed in one buffer,
  separated by newlines; an empty line is not a statement.
\<close>

definition statements :: "string \<Rightarrow> string list" where
  "statements buffer = filter (\<lambda>s. s \<noteq> []) (split_on newline buffer)"

text \<open>
  Modelled from the spec: \<open>parse\<close> for a whole buffer and a parser strategy. A
  buffer over the maximum datagram size is \<open>TooLarge\<close> and is not parsed; else
  every statement is given to the strategy on its own, and the result lists
  what the strategy returned for each.
\<close>

definition parse :: "nat \<Rightarrow> (string \<Rightarrow> 'r) \<Rightarrow> string \<Rightarrow> ParseError + 'r list" where
  "parse max_size strategy buffer =
     (if max_size < length buffer then Inl TooLarge
      else Inr (map strategy (statements buffer)))"

text \<open>
  The basic strategy: a call of the entry point with an empty placeholder.
\<close>

definition basic_strategy :: "string \<Rightarrow> int \<times> statsd_datagram option" where
  "basic_strategy statement = basic_parser_parse statement None"

text \<open>
  The datagrams among the results of the calls, in order: a call that returned
  1 has populated its placeholder.
\<close>

fun yielded :: "(int \<times> statsd_datagram option) list \<Rightarrow> statsd_datagram list" where
  "yielded [] = []"
| "yielded ((r, dg) # rs) =
     (if r = 1 then (case dg of None \<Rightarrow> [] | Some d \<Rightarrow> [d]) else []) @ yielded rs"

text \<open>Statements packed into one buffer, a newline between any two.\<close>

fun join_lines :: "string list \<Rightarrow> string" where
  "join_lines [] = []"
| "join_lines [s] = s"
| "join_lines (s # t # ts) = s @ newline # join_lines (t # ts)"


section \<open>The cluster enumeration: proofs\<close>

lemma cluster_enum_eq:
  "cluster_enum = [(''CLUSTER_GLOBAL'', 0), (''CLUSTER_SS'', 1), (''NUM_CLUSTERS'', 2)]"
  by (simp add: cluster_enum_def)

text \<open>
  C10. The cluster identifiers are distinct and consecutive from zero:
  \<open>CLUSTER_GLOBAL\<close> is 0, \<open>CLUSTER_SS\<close> is 1, and \<open>NUM_CLUSTERS\<close> is 2, one more
  than the largest identifier; an integer is a cluster identifier exactly when
  it is at least 0 and less than \<open>NUM_CLUSTERS\<close>.
\<close>

theorem cluster_ids_consecutive:
  "CLUSTER_GLOBAL = 0 \<and> CLUSTER_SS = 1 \<and> NUM_CLUSTERS = 2 \<and>
   CLUSTER_GLOBAL \<noteq> CLUSTER_SS \<and>
   NUM_CLUSTERS = max CLUSTER_GLOBAL CLUSTER_SS + 1 \<and>
   (\<forall>clusterID. (clusterID = CLUSTER_GLOBAL \<or> clusterID = CLUSTER_SS) =
      (0 \<le> clusterID \<and> clusterID < NUM_CLUSTERS))"
proof -
  have g: "CLUSTER_GLOBAL = 0"
    by (simp add: CLUSTER_GLOBAL_def enumerator_def cluster_enum_eq)
  have s: "CLUSTER_SS = 1"
    by (simp add: CLUSTER_SS_def enumerator_def cluster_enum_eq)
  have n: "NUM_CLUSTERS = 2"
    by (simp add: NUM_CLUSTERS_def enumerator_def cluster_enum_eq)
  show ?thesis unfolding g s n by auto
qed


section \<open>Reading the uptime file: proofs\<close>

subsection \<open>The buffer\<close>

lemma memset_zero_eq: "memset_zero p = \<lparr>uptime = 0, idletime = 0\<rparr>"
  by (simp add: memset_zero_def)

lemma length_buf_on_entry: "length (buf_on_entry w) = MAXPATHLEN"
  by (simp add: buf_on_entry_def)

lemma length_pmsprintf: "sz = length buf \<Longrightarrow> length (pmsprintf buf sz s) = length buf"
  by (cases buf) (auto simp: pmsprintf_def Let_def min_def)

lemma length_path_buf: "length (path_buf w) = MAXPATHLEN"
  by (simp add: path_buf_def length_pmsprintf length_buf_on_entry)

lemma adjust_bounds:
  "0 \<le> n \<Longrightarrow> n \<le> int MAXPATHLEN \<Longrightarrow> 0 \<le> adjust n \<and> adjust n < int MAXPATHLEN"
  by (simp add: adjust_def MAXPATHLEN_def)

lemma c_string_NUL: "c_string (xs @ NUL # ys) = c_string xs"
  by (induction xs) (simp_all add: c_string_def)

text \<open>
  After the read has put its bytes at the front of the buffer, the store of
  the NUL lands on the last of them, or on the first byte of the buffer when
  nothing was read.
\<close>

lemma store_after_read:
  assumes "length bytes \<le> length buf" and "0 < length buf"
  shows "store (bytes @ drop (length bytes) buf) (adjust (int (length bytes))) NUL =
      Some (butlast bytes @ NUL # drop (length (butlast bytes) + 1) buf)"
proof (cases bytes rule: rev_cases)
  case Nil
  with assms show ?thesis
    by (cases buf) (simp_all add: store_def adjust_def)
next
  case (snoc ys y)
  with assms show ?thesis
    by (simp add: store_def adjust_def list_update_append)
qed

lemma uptime_path_eq:
  assumes "NUL \<notin> set (linux_statspath w)" and "length (linux_statspath w) + 12 < MAXPATHLEN"
  shows "uptime_path w = linux_statspath w @ ''/proc/uptime''"
proof -
  have "NUL \<notin> set (linux_statspath w @ ''/proc/uptime'')"
    using assms(1) by (simp add: NUL_def)
  then have "c_string ((linux_statspath w @ ''/proc/uptime'') @ NUL # ys) =
      linux_statspath w @ ''/proc/uptime''" for ys
    unfolding c_string_NUL by (auto simp: c_string_def takeWhile_eq_all_conv)
  then show ?thesis
    using assms(2)
    by (simp add: uptime_path_def path_buf_def pmsprintf_def length_buf_on_entry Let_def)
qed

subsection \<open>What the function returns, by what the operating system does\<close>

lemma refresh_proc_uptime_eq:
  "refresh_proc_uptime w p0 =
     (case file_at w (uptime_path w) of
        OpenFails errno \<Rightarrow>
          Some (- errno, \<lparr>uptime = 0, idletime = 0\<rparr>, [SysOpen (uptime_path w)])
      | ReadFails errno \<Rightarrow>
          Some (- errno, \<lparr>uptime = 0, idletime = 0\<rparr>,
                [SysOpen (uptime_path w), SysRead MAXPATHLEN, SysClose])
      | ReadGives content \<Rightarrow>
          Some (0, snd (sscanf_lf_lf (conv_lf w) (c_string (butlast (take MAXPATHLEN content)))
                          \<lparr>uptime = 0, idletime = 0\<rparr>),
                [SysOpen (uptime_path w), SysRead MAXPATHLEN, SysClose]))"
proof (cases "file_at w (uptime_path w)")
  case (OpenFails e)
  then show ?thesis
    by (simp add: refresh_proc_uptime_def uptime_path_def sys_open_def memset_zero_eq Let_def)
next
  case (ReadFails e)
  then show ?thesis
    by (simp add: refresh_proc_uptime_def uptime_path_def sys_open_def sys_read_def
        memset_zero_eq length_path_buf Let_def)
next
  case (ReadGives content)
  have "store (take MAXPATHLEN content @ drop (length (take MAXPATHLEN content)) (path_buf w))
          (adjust (int (length (take MAXPATHLEN content)))) NUL =
        Some (butlast (take MAXPATHLEN content) @
              NUL # drop (length (butlast (take MAXPATHLEN content)) + 1) (path_buf w))"
    by (rule store_after_read) (simp_all add: length_path_buf MAXPATHLEN_def)
  with ReadGives show ?thesis
    by (simp add: refresh_proc_uptime_def uptime_path_def sys_open_def sys_read_def
        memset_zero_eq length_path_buf Let_def c_string_NUL del: length_take length_butlast)
qed

subsection \<open>Failure results\<close>

text \<open>
  C7. When the uptime file cannot be opened, or can be opened and not read,
  with the error number \<open>errno\<close> (a positive number, as the error numbers of
  the operating system are), the function returns the single result
  \<open>- errno\<close>, which is negative. It returns after one \<open>open\<close>, or after one
  \<open>open\<close>, one \<open>read\<close> and the \<open>close\<close>: nothing is tried a second time. The
  \<open>close\<close> between the failed \<open>read\<close> and the return is taken not to change the
  error number.
\<close>

theorem refresh_proc_uptime_error_return:
  assumes "0 < errno"
  shows "(file_at w (uptime_path w) = OpenFails errno \<longrightarrow>
            refresh_proc_uptime w p0 =
              Some (- errno, memset_zero p0, [SysOpen (uptime_path w)])) \<and>
         (file_at w (uptime_path w) = ReadFails errno \<longrightarrow>
            refresh_proc_uptime w p0 =
              Some (- errno, memset_zero p0,
                    [SysOpen (uptime_path w), SysRead MAXPATHLEN, SysClose])) \<and>
         - errno < 0"
  using assms by (simp add: refresh_proc_uptime_eq memset_zero_eq)

theorem refresh_proc_uptime_error_return_witness:
  "(0::int) < 2 \<and>
   refresh_proc_uptime
     \<lparr>linux_statspath = '''', file_at = (\<lambda>p. OpenFails 2), stack = (\<lambda>i. CHR ''?''), conv_lf = (\<lambda>s. None)\<rparr>
     \<lparr>uptime = 7, idletime = 8\<rparr> =
   Some (- 2, \<lparr>uptime = 0, idletime = 0\<rparr>, [SysOpen ''/proc/uptime''])"
proof -
  let ?w = "\<lparr>linux_statspath = '''', file_at = (\<lambda>p. OpenFails 2), stack = (\<lambda>i. CHR ''?''), conv_lf = (\<lambda>s. None)\<rparr>"
  have p: "uptime_path ?w = ''/proc/uptime''"
    using uptime_path_eq [of ?w] by (simp add: MAXPATHLEN_def)
  have "(0::int) < 2" by simp
  from refresh_proc_uptime_error_return [OF this, of ?w "\<lparr>uptime = 7, idletime = 8\<rparr>"]
  show ?thesis
    by (simp add: memset_zero_eq p)
qed

text \<open>
  C8. On every error return, after a failed \<open>open\<close> as after a failed \<open>read\<close>,
  the caller's structure holds \<open>uptime = 0\<close> and \<open>idletime = 0\<close>: the structure is
  zeroed before the path is opened, and what it held before the call has no
  influence on the outcome.
\<close>

theorem error_return_leaves_zeroes:
  assumes "file_at w (uptime_path w) = OpenFails errno \<or>
           file_at w (uptime_path w) = ReadFails errno"
  shows "(\<exists>t. refresh_proc_uptime w p0 = Some (- errno, \<lparr>uptime = 0, idletime = 0\<rparr>, t)) \<and>
         refresh_proc_uptime w p0 = refresh_proc_uptime w p1"
  using assms by (auto simp: refresh_proc_uptime_eq)

theorem error_return_leaves_zeroes_witness:
  "refresh_proc_uptime
     \<lparr>linux_statspath = '''', file_at = (\<lambda>p. ReadFails 5), stack = (\<lambda>i. CHR ''?''), conv_lf = (\<lambda>s. None)\<rparr>
     \<lparr>uptime = 7, idletime = 8\<rparr> =
   Some (- 5, \<lparr>uptime = 0, idletime = 0\<rparr>,
         [SysOpen ''/proc/uptime'', SysRead 4096, SysClose])"
proof -
  let ?w = "\<lparr>linux_statspath = '''', file_at = (\<lambda>p. ReadFails 5), stack = (\<lambda>i. CHR ''?''), conv_lf = (\<lambda>s. None)\<rparr>"
  have p: "uptime_path ?w = ''/proc/uptime''"
    using uptime_path_eq [of ?w] by (simp add: MAXPATHLEN_def)
  have "file_at ?w (uptime_path ?w) = OpenFails 5 \<or> file_at ?w (uptime_path ?w) = ReadFails 5"
    by simp
  from error_return_leaves_zeroes [OF this, of "\<lparr>uptime = 7, idletime = 8\<rparr>"]
  show ?thesis
    by (auto simp: refresh_proc_uptime_eq p MAXPATHLEN_def)
qed

text \<open>
  C9. For every count \<open>n\<close> a successful \<open>read\<close> can return, from 0 to the size
  of the buffer, the index \<open>n\<close> at which the NUL is stored after the adjustment
  is at least 0 and less than the size of the buffer, so the store is inside
  the array and the function never leaves it. The string left in the buffer
  is the bytes read without the last of them: the adjustment discards the
  final byte whatever it is.
\<close>

theorem nul_store_in_bounds:
  assumes "0 \<le> n" and "n \<le> int MAXPATHLEN"
    and "int (length bytes) = n" and "length buf = MAXPATHLEN"
  shows "0 \<le> adjust n \<and> adjust n < int (length buf) \<and>
         (\<exists>buf2. store (bytes @ drop (length bytes) buf) (adjust n) NUL = Some buf2 \<and>
            c_string buf2 = c_string (butlast bytes)) \<and>
         refresh_proc_uptime w p0 \<noteq> None"
proof -
  have len: "length bytes \<le> length buf" "0 < length buf"
    using assms by (simp_all add: MAXPATHLEN_def)
  have "store (bytes @ drop (length bytes) buf) (adjust n) NUL =
          Some (butlast bytes @ NUL # drop (length (butlast bytes) + 1) buf)"
    using store_after_read [OF len] assms(3) by simp
  moreover have "refresh_proc_uptime w p0 \<noteq> None"
    by (simp add: refresh_proc_uptime_eq split: os_file.split)
  ultimately show ?thesis
    using adjust_bounds [OF assms(1,2)] assms(4) by (simp add: c_string_NUL)
qed

theorem nul_store_in_bounds_witness:
  "(0::int) \<le> 4096 \<and> 4096 \<le> int MAXPATHLEN \<and>
   int (length (replicate 4096 (CHR ''1''))) = 4096 \<and>
   length (replicate 4096 (CHR ''?'')) = MAXPATHLEN \<and>
   adjust 4096 = 4095 \<and>
   adjust 4096 < int (length (replicate 4096 (CHR ''?'')))"
  using nul_store_in_bounds [of 4096 "replicate 4096 (CHR ''1'')" "replicate 4096 (CHR ''?'')"]
  by (simp add: MAXPATHLEN_def adjust_def)

subsection \<open>Machines with the uptime file at its usual path\<close>

lemma uptime_path_machine: "uptime_path (machine content table) = ''/proc/uptime''"
  using uptime_path_eq [of "machine content table"]
  by (simp add: machine_def MAXPATHLEN_def NUL_def)

lemma refresh_machine:
  "refresh_proc_uptime (machine content table) p0 =
     Some (0, snd (sscanf_lf_lf (map_of table) (c_string (butlast (take MAXPATHLEN content)))
                     \<lparr>uptime = 0, idletime = 0\<rparr>),
           [SysOpen ''/proc/uptime'', SysRead 4096, SysClose])"
proof -
  have "file_at (machine content table) ''/proc/uptime'' = ReadGives content"
    and "conv_lf (machine content table) = map_of table"
    by (simp_all add: machine_def)
  then show ?thesis
    by (simp add: refresh_proc_uptime_eq uptime_path_machine MAXPATHLEN_def)
qed

lemma c_string_text: "NUL \<notin> set s \<Longrightarrow> c_string s = s"
  by (auto simp: c_string_def takeWhile_eq_all_conv)

lemma dropWhile_isspace_text: "s \<noteq> [] \<Longrightarrow> \<not> isspace (hd s) \<Longrightarrow> dropWhile isspace (s @ r) = s @ r"
  by (cases s) simp_all

subsection \<open>Malformed content\<close>

text \<open>
  A file that holds no number at all is read with the result 0 and a zeroed
  structure, exactly as a file that holds two zeroes is: the result of the
  function does not signal malformed content.
\<close>

theorem malformed_content_returns_success:
  "refresh_proc_uptime (machine (''garbage'' @ [CHR 0x0A]) zeroes_table)
     \<lparr>uptime = 7, idletime = 8\<rparr> =
   Some (0, \<lparr>uptime = 0, idletime = 0\<rparr>, [SysOpen ''/proc/uptime'', SysRead 4096, SysClose]) \<and>
   refresh_proc_uptime (machine (''0.00 0.00'' @ [CHR 0x0A]) zeroes_table)
     \<lparr>uptime = 7, idletime = 8\<rparr> =
   Some (0, \<lparr>uptime = 0, idletime = 0\<rparr>, [SysOpen ''/proc/uptime'', SysRead 4096, SysClose])"
  by (simp add: refresh_machine MAXPATHLEN_def c_string_def NUL_def sscanf_lf_lf_def
      isspace_def zeroes_table_def)

text \<open>
  C1, as the code has it. A file that is missing or unreadable yields the
  negative result \<open>- errno\<close>. A file that can be read yields the result 0
  whatever it holds: content that is not two numbers is not signalled. So the
  caller can tell an unreadable file from malformed content by the result,
  and cannot tell malformed content from a successful read.
\<close>

theorem failure_signals:
  assumes "0 < errno"
  shows "(file_at w (uptime_path w) = OpenFails errno \<or>
          file_at w (uptime_path w) = ReadFails errno \<longrightarrow>
            (\<exists>p t. refresh_proc_uptime w p0 = Some (- errno, p, t)) \<and> - errno < 0) \<and>
         (file_at w (uptime_path w) = ReadGives content \<longrightarrow>
            (\<exists>p t. refresh_proc_uptime w p0 = Some (0, p, t)))"
  using assms by (auto simp: refresh_proc_uptime_eq)

theorem failure_signals_witness:
  "(0::int) < 2 \<and>
   (\<exists>p t. refresh_proc_uptime (machine (''garbage'' @ [CHR 0x0A]) zeroes_table)
      \<lparr>uptime = 7, idletime = 8\<rparr> = Some (0, p, t))"
proof -
  let ?w = "machine (''garbage'' @ [CHR 0x0A]) zeroes_table"
  have f: "file_at ?w (uptime_path ?w) = ReadGives (''garbage'' @ [CHR 0x0A])"
    by (simp add: uptime_path_machine) (simp add: machine_def)
  have "(0::int) < 2" by simp
  from failure_signals [OF this, where w = ?w and content = "''garbage'' @ [CHR 0x0A]"
      and ?p0.0 = "\<lparr>uptime = 7, idletime = 8\<rparr>"] f
  show ?thesis
    by simp
qed

subsection \<open>Content of two numbers\<close>

text \<open>
  A file of two numbers that is longer than the buffer. The one \<open>read\<close>
  delivers its first 4096 bytes, the text of the first number; the last of
  them is discarded, the first number is converted from what is left, and
  nothing is left for the second conversion: \<open>idletime\<close> stays 0, and is not
  the second number, 25.
\<close>

theorem long_content_truncated:
  "long_content = ''1.'' @ replicate 4094 (CHR ''0'') @ '' 25'' @ [CHR 0x0A] \<and>
   length long_content = 4100 \<and>
   refresh_proc_uptime (machine long_content long_table) \<lparr>uptime = 7, idletime = 8\<rparr> =
     Some (0, \<lparr>uptime = 0x3FF0000000000000, idletime = 0\<rparr>,
           [SysOpen ''/proc/uptime'', SysRead 4096, SysClose]) \<and>
   conv_lf (machine long_content long_table) ''25'' = Some (0x4039000000000000, []) \<and>
   (0x4039000000000000 :: double) \<noteq> 0"
proof -
  let ?z = "replicate 4093 (CHR ''0'')"
  have r: "replicate 4094 (CHR ''0'') = ?z @ ''0''"
    using replicate_append_same [of 4093 "CHR ''0''"] replicate_Suc [of 4093 "CHR ''0''"]
    by simp
  have t: "take MAXPATHLEN long_content = ''1.'' @ ?z @ ''0''"
    by (simp add: long_content_def uptime_text_def MAXPATHLEN_def r)
  have b: "butlast (''1.'' @ ?z @ ''0'') = ''1.'' @ ?z"
    by (simp add: butlast_append)
  have "NUL \<notin> set (''1.'' @ ?z)"
    by (simp add: NUL_def)
  then have c: "c_string (''1.'' @ ?z) = ''1.'' @ ?z"
    by (rule c_string_text)
  have d: "dropWhile isspace (''1.'' @ ?z) = ''1.'' @ ?z"
    by (simp add: isspace_def)
  have m: "map_of long_table (''1.'' @ ?z) = Some (0x3FF0000000000000, [])"
    "map_of long_table [] = None"
    "map_of long_table ''25'' = Some (0x4039000000000000, [])"
    by (simp_all add: long_table_def)
  have s: "sscanf_lf_lf (map_of long_table) (''1.'' @ ?z) \<lparr>uptime = 0, idletime = 0\<rparr> =
      (1, \<lparr>uptime = 0x3FF0000000000000, idletime = 0\<rparr>)"
    unfolding sscanf_lf_lf_def d m(1) by (simp add: m(2))
  have 1: "long_content = ''1.'' @ replicate 4094 (CHR ''0'') @ '' 25'' @ [CHR 0x0A]"
    by (simp add: long_content_def uptime_text_def)
  have 2: "length long_content = 4100"
    by (simp add: 1)
  have 3: "refresh_proc_uptime (machine long_content long_table) \<lparr>uptime = 7, idletime = 8\<rparr> =
     Some (0, \<lparr>uptime = 0x3FF0000000000000, idletime = 0\<rparr>,
           [SysOpen ''/proc/uptime'', SysRead 4096, SysClose])"
    unfolding refresh_machine t b c s by simp
  have 4: "conv_lf (machine long_content long_table) ''25'' = Some (0x4039000000000000, [])"
    by (simp add: machine_def m)
  have 5: "(0x4039000000000000 :: double) \<noteq> 0"
    by simp
  show ?thesis
    by (intro conjI 1 2 3 4 5)
qed

text \<open>
  C2, as the code has it. When the file holds two numbers in the form \<open>A B\<close>
  followed by a newline and is no longer than the buffer, so that the one
  \<open>read\<close> delivers all of it, the function opens the file, reads it once and
  closes it, stores the double the C library converts \<open>A\<close> to in \<open>uptime\<close> and
  the double it converts \<open>B\<close> to in \<open>idletime\<close>, and returns 0. That \<open>A\<close> and
  \<open>B\<close> are numbers is said by what the library does: it reads \<open>A\<close> up to the
  blank and reads \<open>B\<close>; like every text of a number they hold no NUL and do not
  begin with white space.
\<close>

theorem well_formed_content_stored:
  assumes "a \<noteq> []" and "\<not> isspace (hd a)" and "NUL \<notin> set a"
    and "b \<noteq> []" and "\<not> isspace (hd b)" and "NUL \<notin> set b"
    and "conv_lf w (a @ '' '' @ b) = Some (x, '' '' @ b)"
    and "conv_lf w b = Some (y, r)"
    and "length (uptime_text a b) \<le> MAXPATHLEN"
    and "file_at w (uptime_path w) = ReadGives (uptime_text a b)"
  shows "refresh_proc_uptime w p0 =
           Some (0, \<lparr>uptime = x, idletime = y\<rparr>,
                 [SysOpen (uptime_path w), SysRead MAXPATHLEN, SysClose])"
proof -
  let ?s = "a @ '' '' @ b"
  have "uptime_text a b = ?s @ [CHR 0x0A]"
    by (simp add: uptime_text_def)
  then have 1: "butlast (take MAXPATHLEN (uptime_text a b)) = ?s"
    using assms(9) by (simp add: butlast_append)
  have "NUL \<notin> set ?s"
    using assms(3,6) by (simp add: NUL_def)
  then have 2: "c_string ?s = ?s"
    by (rule c_string_text)
  have 3: "dropWhile isspace ?s = ?s"
    using dropWhile_isspace_text [OF assms(1,2)] .
  have sp: "isspace (CHR '' '')"
    by (simp add: isspace_def)
  have 4: "dropWhile isspace b = b"
    using dropWhile_isspace_text [OF assms(4,5), of "[]"] by simp
  have "sscanf_lf_lf (conv_lf w) ?s \<lparr>uptime = 0, idletime = 0\<rparr> =
      (2, \<lparr>uptime = x, idletime = y\<rparr>)"
    unfolding sscanf_lf_lf_def 3 assms(7) by (simp add: sp 4 assms(8))
  then have "snd (sscanf_lf_lf (conv_lf w)
                (c_string (butlast (take MAXPATHLEN (uptime_text a b))))
                \<lparr>uptime = 0, idletime = 0\<rparr>) = \<lparr>uptime = x, idletime = y\<rparr>"
    unfolding 1 2 by simp
  then show ?thesis
    using assms(10) by (simp add: refresh_proc_uptime_eq)
qed

theorem well_formed_content_stored_witness:
  "uptime_text ''350735.47'' ''234388.90'' = ''350735.47 234388.90'' @ [CHR 0x0A] \<and>
   conv_lf (machine (uptime_text ''350735.47'' ''234388.90'') uptime_table)
     (''350735.47'' @ '' '' @ ''234388.90'') = Some (0x4115683DE147AE14, '' '' @ ''234388.90'') \<and>
   conv_lf (machine (uptime_text ''350735.47'' ''234388.90'') uptime_table) ''234388.90'' =
     Some (0x410C9CA733333333, []) \<and>
   refresh_proc_uptime (machine (uptime_text ''350735.47'' ''234388.90'') uptime_table)
     \<lparr>uptime = 7, idletime = 8\<rparr> =
   Some (0, \<lparr>uptime = 0x4115683DE147AE14, idletime = 0x410C9CA733333333\<rparr>,
         [SysOpen ''/proc/uptime'', SysRead 4096, SysClose])"
proof -
  let ?a = "''350735.47''" and ?b = "''234388.90''"
  let ?w = "machine (uptime_text ?a ?b) uptime_table"
  have t: "uptime_text ?a ?b = ''350735.47 234388.90'' @ [CHR 0x0A]"
    by (simp add: uptime_text_def)
  have a: "?a \<noteq> []" "\<not> isspace (hd ?a)" "NUL \<notin> set ?a"
    and b: "?b \<noteq> []" "\<not> isspace (hd ?b)" "NUL \<notin> set ?b"
    by (simp_all add: isspace_def NUL_def)
  have ca: "conv_lf ?w (?a @ '' '' @ ?b) = Some (0x4115683DE147AE14, '' '' @ ?b)"
    and cb: "conv_lf ?w ?b = Some (0x410C9CA733333333, [])"
    by (simp_all add: machine_def uptime_table_def)
  have l: "length (uptime_text ?a ?b) \<le> MAXPATHLEN"
    by (simp add: t MAXPATHLEN_def)
  have f: "file_at ?w (uptime_path ?w) = ReadGives (uptime_text ?a ?b)"
    by (simp add: uptime_path_machine) (simp add: machine_def)
  note r = well_formed_content_stored [OF a b ca cb l f, of "\<lparr>uptime = 7, idletime = 8\<rparr>",
      unfolded uptime_path_machine MAXPATHLEN_def]
  show ?thesis
    by (intro conjI t ca cb r)
qed


section \<open>The basic parser: proofs\<close>

lemmas scan_defs = scan_number_def scan_sign_def isdigit_def digit_val_def

lemmas parser_defs = parse_statement_def parse_type_def parse_value_def parse_number_def
  parse_rate_def is_tags_def parse_tags_def parse_tag_def reserved_def newline_def

subsection \<open>One statement\<close>

text \<open>
  C6. Parsing \<open>foo:1|c\<close> succeeds with a counter datagram whose name is
  \<open>foo\<close>, whose value is 1 and whose sample rate, no rate field being
  present, is 1.
\<close>

theorem parse_foo_counter:
  "parse_statement ''foo:1|c'' =
     Inr \<lparr>name = ''foo'', type = Counter, value = Number 1, sampleRate = 1, tags = []\<rparr> \<and>
   basic_parser_parse ''foo:1|c'' dg =
     (1, Some \<lparr>name = ''foo'', type = Counter, value = Number 1, sampleRate = 1, tags = []\<rparr>)"
  by (simp add: basic_parser_parse_def parser_defs scan_defs)

subsection \<open>Several statements in one buffer\<close>

lemma split_on_no_delimiter: "d \<notin> set s \<Longrightarrow> split_on d s = [s]"
  by (induction s) auto

lemma split_on_append:
  "d \<notin> set s \<Longrightarrow> split_on d (s @ d # r) = s # split_on d r"
  by (induction s) auto

lemma split_on_join_lines:
  assumes "\<forall>s \<in> set stmts. newline \<notin> set s" and "stmts \<noteq> []"
  shows "split_on newline (join_lines stmts) = stmts"
  using assms
  by (induction stmts rule: join_lines.induct)
    (simp_all add: split_on_no_delimiter split_on_append)

lemma statements_join_lines:
  assumes "\<forall>s \<in> set stmts. s \<noteq> [] \<and> newline \<notin> set s"
  shows "statements (join_lines stmts) = stmts"
proof (cases stmts)
  case Nil
  then show ?thesis by (simp add: statements_def)
next
  case (Cons a list)
  then have "split_on newline (join_lines stmts) = stmts"
    using assms by (intro split_on_join_lines) auto
  moreover have "filter (\<lambda>s. s \<noteq> []) stmts = stmts"
    using assms by (simp add: filter_id_conv)
  ultimately show ?thesis by (simp add: statements_def)
qed

lemma yielded_basic_strategy:
  "yielded (map basic_strategy stmts) =
     concat (map (\<lambda>x. case parse_statement x of Inl e \<Rightarrow> [] | Inr d \<Rightarrow> [d]) stmts)"
  by (induction stmts)
    (simp_all add: basic_strategy_def basic_parser_parse_def split: sum.split)

text \<open>
  C5. When a buffer within the size limit packs several statements, separated
  by newlines, one call of \<open>parse\<close> gives every statement to the strategy on its
  own: the result lists, in order, what the strategy returns for each
  statement alone. With the basic strategy the datagrams yielded are one for
  every valid statement, in order: whatever a statement \<open>s\<close> in the middle is,
  the datagrams of the statements before it and after it are yielded, and
  \<open>s\<close> adds its own datagram when it is valid and nothing when it fails.
\<close>

theorem statements_parsed_independently:
  assumes "\<forall>x \<in> set (pre @ s # post). x \<noteq> [] \<and> newline \<notin> set x"
    and "length (join_lines (pre @ s # post)) \<le> max_size"
  shows "parse max_size strategy (join_lines (pre @ s # post)) =
           Inr (map strategy pre @ strategy s # map strategy post) \<and>
         yielded (map basic_strategy pre @ basic_strategy s # map basic_strategy post) =
           concat (map (\<lambda>x. case parse_statement x of Inl e \<Rightarrow> [] | Inr d \<Rightarrow> [d]) pre) @
           (case parse_statement s of Inl e \<Rightarrow> [] | Inr d \<Rightarrow> [d]) @
           concat (map (\<lambda>x. case parse_statement x of Inl e \<Rightarrow> [] | Inr d \<Rightarrow> [d]) post)"
proof -
  have "statements (join_lines (pre @ s # post)) = pre @ s # post"
    using assms(1) by (rule statements_join_lines)
  then have "parse max_size strategy (join_lines (pre @ s # post)) =
           Inr (map strategy pre @ strategy s # map strategy post)"
    using assms(2) by (simp add: parse_def)
  moreover have "yielded (map basic_strategy pre @ basic_strategy s # map basic_strategy post) =
      yielded (map basic_strategy (pre @ s # post))"
    by simp
  ultimately show ?thesis
    unfolding yielded_basic_strategy by simp
qed

theorem statements_parsed_independently_witness:
  "parse 100 basic_strategy (''foo:1|c'' @ [newline] @ ''bar:x|c'' @ [newline] @ ''baz:2|g'') =
     Inr [(1, Some \<lparr>name = ''foo'', type = Counter, value = Number 1, sampleRate = 1, tags = []\<rparr>),
          (0, None),
          (1, Some \<lparr>name = ''baz'', type = Gauge, value = Number 2, sampleRate = 1, tags = []\<rparr>)] \<and>
   yielded
     [(1, Some \<lparr>name = ''foo'', type = Counter, value = Number 1, sampleRate = 1, tags = []\<rparr>),
      (0, None),
      (1, Some \<lparr>name = ''baz'', type = Gauge, value = Number 2, sampleRate = 1, tags = []\<rparr>)] =
     [\<lparr>name = ''foo'', type = Counter, value = Number 1, sampleRate = 1, tags = []\<rparr>,
      \<lparr>name = ''baz'', type = Gauge, value = Number 2, sampleRate = 1, tags = []\<rparr>]"
proof -
  have h1: "\<forall>x \<in> set ([''foo:1|c''] @ ''bar:x|c'' # [''baz:2|g'']). x \<noteq> [] \<and> newline \<notin> set x"
    by (simp add: newline_def)
  have h2: "length (join_lines ([''foo:1|c''] @ ''bar:x|c'' # [''baz:2|g''])) \<le> 100"
    by simp
  have v: "parse_statement ''foo:1|c'' =
        Inr \<lparr>name = ''foo'', type = Counter, value = Number 1, sampleRate = 1, tags = []\<rparr>"
      "parse_statement ''bar:x|c'' = Inl MalformedValue"
      "parse_statement ''baz:2|g'' =
        Inr \<lparr>name = ''baz'', type = Gauge, value = Number 2, sampleRate = 1, tags = []\<rparr>"
    by (simp_all add: parser_defs scan_defs)
  from statements_parsed_independently [OF h1 h2, of basic_strategy]
  show ?thesis
    by (simp add: v basic_strategy_def basic_parser_parse_def)
qed


end
